theory Spec2Isabelle
  imports Complex_Main "HOL-Library.Sublist"
begin

section \<open>Exceptions\<close>

text \<open>
  The exception classes the integration handles or lets through. The classes of the
  \<^verbatim>\<open>nanokvm\<close> client library and of \<^verbatim>\<open>aiohttp\<close> are not part of the repository;
  their hierarchy is the one the \<^verbatim>\<open>except\<close> clauses of \<^verbatim>\<open>coordinator.py\<close> and
  \<^verbatim>\<open>__init__.py\<close> rely on: \<^verbatim>\<open>NanoKVMAuthenticationFailure\<close> and \<^verbatim>\<open>NanoKVMApiError\<close> are
  distinct subclasses of \<^verbatim>\<open>NanoKVMError\<close>, and \<^verbatim>\<open>ClientResponseError\<close> (which carries an
  HTTP status) is a subclass of \<^verbatim>\<open>ClientError\<close>. \<open>NanoKVMError\<close> and \<open>ClientError\<close>
  below stand for the remaining instances of the two base classes, \<open>SSHError\<close> for a
  failure of the command channel's transport, \<open>TimestampError\<close> for the
  \<^verbatim>\<open>ValueError\<close>, \<^verbatim>\<open>OverflowError\<close> or \<^verbatim>\<open>OSError\<close> of a timestamp outside the range of
  \<^verbatim>\<open>datetime\<close>, and \<open>OtherException\<close> for any other subclass of \<^verbatim>\<open>Exception\<close>.
\<close>

datatype exn =
    NanoKVMAuthenticationFailure
  | NanoKVMApiError
  | NanoKVMError
  | ClientResponseError int
  | ClientError
  | TimeoutError
  | ValueError
  | OverflowError
  | ZeroDivisionError
  | TimestampError
  | SSHError
  | OtherException

section \<open>Python strings\<close>

text \<open>
  Text is a list of characters with code points below 256. On these, \<^verbatim>\<open>str.isspace\<close>
  holds for the code points 9 to 13, 28 to 32, 133 and 160, and \<^verbatim>\<open>str.splitlines\<close>
  breaks at 10 to 13, 28 to 30 and 133, a carriage return followed by a line feed
  counting as one break.
\<close>

definition isspace :: "char \<Rightarrow> bool" where
  "isspace c = (of_char c \<in> set [9, 10, 11, 12, 13, 28, 29, 30, 31, 32, 133, 160 :: nat])"

definition is_linebreak :: "char \<Rightarrow> bool" where
  "is_linebreak c = (of_char c \<in> set [10, 11, 12, 13, 28, 29, 30, 133 :: nat])"

text \<open>
  \<open>splitlines_aux cr cur s\<close>: the lines of \<open>s\<close>, where \<open>cur\<close> is the line read so far,
  reversed, and \<open>cr\<close> tells that the previous character was a carriage return that
  ended a line, so that a line feed right after it belongs to the same break.
\<close>

fun splitlines_aux :: "bool \<Rightarrow> string \<Rightarrow> string \<Rightarrow> string list" where
  "splitlines_aux cr cur [] = (if cur = [] then [] else [rev cur])"
| "splitlines_aux cr cur (c # cs) =
     (if cr \<and> of_char c = (10 :: nat) then splitlines_aux False cur cs
      else if is_linebreak c then rev cur # splitlines_aux (of_char c = (13 :: nat)) [] cs
      else splitlines_aux False (c # cur) cs)"

definition splitlines :: "string \<Rightarrow> string list" where
  "splitlines s = splitlines_aux False [] s"

text \<open>\<^verbatim>\<open>str.split()\<close> without arguments: the maximal runs of non-whitespace characters.\<close>

fun split_aux :: "string \<Rightarrow> string \<Rightarrow> string list" where
  "split_aux cur [] = (if cur = [] then [] else [rev cur])"
| "split_aux cur (c # cs) =
     (if isspace c then (if cur = [] then split_aux [] cs else rev cur # split_aux [] cs)
      else split_aux (c # cur) cs)"

definition split :: "string \<Rightarrow> string list" where
  "split s = split_aux [] s"

definition strip :: "string \<Rightarrow> string" where
  "strip s = rev (dropWhile isspace (rev (dropWhile isspace s)))"

definition rstrip :: "string \<Rightarrow> string \<Rightarrow> string" where
  "rstrip s chars = rev (dropWhile (\<lambda>c. c \<in> set chars) (rev s))"

section \<open>Python numbers\<close>

subsection \<open>Integer literals\<close>

definition is_digit :: "char \<Rightarrow> bool" where
  "is_digit c = (48 \<le> (of_char c :: nat) \<and> (of_char c :: nat) \<le> 57)"

definition digit_val :: "char \<Rightarrow> nat" where
  "digit_val c = of_char c - 48"

definition digits_value :: "string \<Rightarrow> nat" where
  "digits_value ds = foldl (\<lambda>a c. 10 * a + digit_val c) 0 ds"

text \<open>
  In a numeric literal an underscore may stand only between two digits. The literal is
  checked for that and read without its underscores; \<open>prev\<close> is the character before
  the one looked at.
\<close>

fun underscores_ok :: "char option \<Rightarrow> string \<Rightarrow> bool" where
  "underscores_ok prev [] = True"
| "underscores_ok prev (c # cs) =
     (if c = CHR ''_''
      then (case prev of None \<Rightarrow> False | Some p \<Rightarrow> is_digit p)
           \<and> (case cs of [] \<Rightarrow> False | d # _ \<Rightarrow> is_digit d)
           \<and> underscores_ok (Some c) cs
      else underscores_ok (Some c) cs)"

definition strip_underscores :: "string \<Rightarrow> string option" where
  "strip_underscores s =
     (if underscores_ok None s then Some (filter (\<lambda>c. c \<noteq> CHR ''_'') s) else None)"

definition split_sign :: "string \<Rightarrow> bool \<times> string" where
  "split_sign s =
     (case s of
        [] \<Rightarrow> (False, [])
      | c # r \<Rightarrow> if c = CHR ''-'' then (True, r) else if c = CHR ''+'' then (False, r)
                 else (False, s))"

definition int_max_str_digits :: nat where
  "int_max_str_digits = 4300"

text \<open>
  \<^verbatim>\<open>int(s)\<close> for a string without leading or trailing whitespace (every call of the
  collector passes a token of \<^verbatim>\<open>split()\<close>): an optional sign and a non-empty run of
  decimal digits, at most \<open>int_max_str_digits\<close> of them (the interpreter's default limit
  on the conversion); anything else raises \<^verbatim>\<open>ValueError\<close>.
\<close>

definition py_int :: "string \<Rightarrow> exn + int" where
  "py_int s =
     (case strip_underscores s of
        None \<Rightarrow> Inl ValueError
      | Some t \<Rightarrow>
          (let (neg, ds) = split_sign t
           in if ds = [] \<or> \<not> list_all is_digit ds \<or> int_max_str_digits < length ds
              then Inl ValueError
              else Inr (if neg then - int (digits_value ds) else int (digits_value ds))))"

subsection \<open>Floating-point numbers\<close>

text \<open>
  A Python \<^verbatim>\<open>float\<close> is an IEEE 754 binary64 number: a finite value, kept here as the
  rational it denotes, an infinity or a NaN. The sign of zero is not kept (\<^verbatim>\<open>-0.0\<close> and
  \<^verbatim>\<open>0.0\<close> are equal in Python). Every operation computes the exact result and rounds it
  to the nearest representable number, ties to the even significand.
\<close>

datatype pyfloat = Finite rat | PosInf | NegInf | NaN

text \<open>Rounding a rational to the nearest integer, ties to even.\<close>

definition round_half_even :: "rat \<Rightarrow> int" where
  "round_half_even x =
     (let f = \<lfloor>x\<rfloor>; d = x - of_int f
      in if d < 1 / 2 then f else if 1 / 2 < d then f + 1 else if even f then f else f + 1)"

fun bitlen :: "nat \<Rightarrow> nat" where
  "bitlen n = (if n = 0 then 0 else Suc (bitlen (n div 2)))"

definition pow2 :: "int \<Rightarrow> rat" where
  "pow2 e = (if 0 \<le> e then 2 ^ nat e else 1 / 2 ^ nat (- e))"

definition pow10 :: "int \<Rightarrow> rat" where
  "pow10 e = (if 0 \<le> e then 10 ^ nat e else 1 / 10 ^ nat (- e))"

text \<open>\<open>exponent a\<close> for \<open>a > 0\<close>: the integer \<open>e\<close> with \<open>2 ^ e \<le> a < 2 ^ (e + 1)\<close>.\<close>

definition exponent :: "rat \<Rightarrow> int" where
  "exponent a =
     (let (p, q) = quotient_of a;
          e0 = int (bitlen (nat p)) - int (bitlen (nat q))
      in if pow2 e0 \<le> a then e0 else e0 - 1)"

text \<open>
  \<open>fl x\<close>: the binary64 number nearest to \<open>x\<close>. The significand has 53 bits, the unit in
  the last place is never below \<open>2 ^ -1074\<close> (subnormal numbers), and a result that
  rounds to \<open>2 ^ 1024\<close> or beyond is an infinity.
\<close>

definition fl :: "rat \<Rightarrow> pyfloat" where
  "fl x =
     (if x = 0 then Finite 0
      else
        (let a = \<bar>x\<bar>;
             u = pow2 (max (exponent a - 52) (- 1074));
             r = of_int (round_half_even (a / u)) * u
         in if pow2 1024 \<le> r then (if 0 < x then PosInf else NegInf)
            else Finite (if 0 < x then r else - r)))"

text \<open>\<^verbatim>\<open>a / b\<close> on two \<^verbatim>\<open>int\<close>s: the correctly rounded quotient, or an exception.\<close>

definition int_truediv :: "int \<Rightarrow> int \<Rightarrow> exn + pyfloat" where
  "int_truediv a b =
     (if b = 0 then Inl ZeroDivisionError
      else (case fl (of_int a / of_int b) of
              Finite r \<Rightarrow> Inr (Finite r)
            | _ \<Rightarrow> Inl OverflowError))"

text \<open>\<^verbatim>\<open>x > n\<close> for a \<^verbatim>\<open>float\<close> and an \<^verbatim>\<open>int\<close>: an exact comparison, false for a NaN.\<close>

definition float_gt_int :: "pyfloat \<Rightarrow> int \<Rightarrow> bool" where
  "float_gt_int x n =
     (case x of Finite r \<Rightarrow> of_int n < r | PosInf \<Rightarrow> True | NegInf \<Rightarrow> False | NaN \<Rightarrow> False)"

definition float_neg :: "pyfloat \<Rightarrow> pyfloat" where
  "float_neg x =
     (case x of Finite r \<Rightarrow> Finite (- r) | PosInf \<Rightarrow> NegInf | NegInf \<Rightarrow> PosInf | NaN \<Rightarrow> NaN)"

text \<open>\<^verbatim>\<open>x - y\<close> on two \<^verbatim>\<open>float\<close>s.\<close>

definition float_sub :: "pyfloat \<Rightarrow> pyfloat \<Rightarrow> pyfloat" where
  "float_sub x y =
     (case (x, y) of
        (Finite a, Finite b) \<Rightarrow> fl (a - b)
      | (NaN, _) \<Rightarrow> NaN
      | (_, NaN) \<Rightarrow> NaN
      | (PosInf, PosInf) \<Rightarrow> NaN
      | (NegInf, NegInf) \<Rightarrow> NaN
      | (PosInf, _) \<Rightarrow> PosInf
      | (NegInf, _) \<Rightarrow> NegInf
      | (Finite a, PosInf) \<Rightarrow> NegInf
      | (Finite a, NegInf) \<Rightarrow> PosInf)"

text \<open>\<^verbatim>\<open>x * n\<close> for a \<^verbatim>\<open>float\<close> and a positive \<^verbatim>\<open>int\<close> constant that is a \<^verbatim>\<open>float\<close> exactly.\<close>

definition float_mul_pos :: "pyfloat \<Rightarrow> nat \<Rightarrow> pyfloat" where
  "float_mul_pos x n = (case x of Finite a \<Rightarrow> fl (a * of_nat n) | _ \<Rightarrow> x)"

text \<open>\<^verbatim>\<open>x / n\<close> for a \<^verbatim>\<open>float\<close> and a positive \<^verbatim>\<open>int\<close> constant that is a \<^verbatim>\<open>float\<close> exactly.\<close>

definition float_div_pos :: "pyfloat \<Rightarrow> nat \<Rightarrow> pyfloat" where
  "float_div_pos x n = (case x of Finite a \<Rightarrow> fl (a / of_nat n) | _ \<Rightarrow> x)"

text \<open>\<^verbatim>\<open>x / y\<close> on two \<^verbatim>\<open>float\<close>s; a zero divisor raises.\<close>

definition float_div :: "pyfloat \<Rightarrow> pyfloat \<Rightarrow> exn + pyfloat" where
  "float_div x y =
     (case y of
        Finite b \<Rightarrow>
          (if b = 0 then Inl ZeroDivisionError
           else (case x of
                   Finite a \<Rightarrow> Inr (fl (a / b))
                 | NaN \<Rightarrow> Inr NaN
                 | _ \<Rightarrow> Inr (if 0 < b then x else float_neg x)))
      | NaN \<Rightarrow> Inr NaN
      | _ \<Rightarrow> (case x of Finite a \<Rightarrow> Inr (Finite 0) | _ \<Rightarrow> Inr NaN))"

text \<open>
  \<^verbatim>\<open>round(x, ndigits)\<close> for a \<^verbatim>\<open>float\<close> and \<open>ndigits \<ge> 0\<close>: the exact value of \<open>x\<close> is
  rounded to that many decimals, ties to even, and the decimal is converted back to the
  nearest \<^verbatim>\<open>float\<close>; infinities and NaNs are returned as they are.
\<close>

definition py_round :: "pyfloat \<Rightarrow> nat \<Rightarrow> pyfloat" where
  "py_round x ndigits =
     (case x of
        Finite a \<Rightarrow> fl (of_int (round_half_even (a * 10 ^ ndigits)) / 10 ^ ndigits)
      | _ \<Rightarrow> x)"

definition lower :: "char \<Rightarrow> char" where
  "lower c =
     (if 65 \<le> (of_char c :: nat) \<and> (of_char c :: nat) \<le> 90
      then char_of ((of_char c :: nat) + 32) else c)"

text \<open>The exponent part of a decimal literal: empty, or \<^verbatim>\<open>e\<close>, an optional sign and digits.\<close>

definition parse_exponent :: "string \<Rightarrow> int option" where
  "parse_exponent s =
     (case s of
        [] \<Rightarrow> Some 0
      | c # r \<Rightarrow>
          if lower c = CHR ''e''
          then (let (neg, ds) = split_sign r
                in if ds \<noteq> [] \<and> list_all is_digit ds
                   then Some (if neg then - int (digits_value ds) else int (digits_value ds))
                   else None)
          else None)"

text \<open>
  \<^verbatim>\<open>float(s)\<close> for a string without leading or trailing whitespace (the collector
  strips the text, or strips a token of \<^verbatim>\<open>split()\<close>): an optional sign, then
  \<^verbatim>\<open>inf\<close>, \<^verbatim>\<open>infinity\<close> or \<^verbatim>\<open>nan\<close> in any case, or a decimal literal with digits before
  or after an optional point and an optional exponent. The value is the decimal's,
  rounded to the nearest \<^verbatim>\<open>float\<close>.
\<close>

definition py_float :: "string \<Rightarrow> exn + pyfloat" where
  "py_float s =
     (case strip_underscores s of
        None \<Rightarrow> Inl ValueError
      | Some t \<Rightarrow>
          (let (neg, u) = split_sign t; lu = map lower u
           in if lu = ''inf'' \<or> lu = ''infinity'' then Inr (if neg then NegInf else PosInf)
              else if lu = ''nan'' then Inr NaN
              else
                (let ip = takeWhile is_digit u;
                     r1 = dropWhile is_digit u;
                     (fp, r2) =
                       (case r1 of
                          [] \<Rightarrow> ([], [])
                        | c # r \<Rightarrow>
                            if c = CHR ''.'' then (takeWhile is_digit r, dropWhile is_digit r)
                            else ([], r1))
                 in if ip = [] \<and> fp = [] then Inl ValueError
                    else
                      (case parse_exponent r2 of
                         None \<Rightarrow> Inl ValueError
                       | Some ex \<Rightarrow>
                           (let v = of_nat (digits_value (ip @ fp)) * pow10 (ex - int (length fp))
                            in Inr (fl (if neg then - v else v)))))))"

section \<open>URL helpers (\<^verbatim>\<open>utils.py\<close>)\<close>

text \<open>
  Python's \<^verbatim>\<open>str.startswith\<close> and \<^verbatim>\<open>str.endswith\<close> are the prefix and suffix
  tests on character lists; with a tuple argument, \<^verbatim>\<open>startswith\<close> holds when one of
  the alternatives is a prefix.
\<close>

definition startswith :: "string \<Rightarrow> string \<Rightarrow> bool" where
  "startswith s p = prefix p s"

definition endswith :: "string \<Rightarrow> string \<Rightarrow> bool" where
  "endswith s p = suffix p s"

definition has_scheme :: "string \<Rightarrow> bool" where
  "has_scheme s = (startswith s ''http://'' \<or> startswith s ''https://'')"

definition normalize_host :: "string \<Rightarrow> string" where
  "normalize_host host =
     (let host1 = (if \<not> has_scheme host then ''http://'' @ host else host)
      in if \<not> endswith host1 ''/api/''
         then (if endswith host1 ''/'' then host1 @ ''api/'' else host1 @ ''/api/'')
         else host1)"

section \<open>Properties of the URL helpers\<close>

lemma has_scheme_append: "has_scheme s \<Longrightarrow> has_scheme (s @ t)"
  by (auto simp: has_scheme_def startswith_def)

lemma has_scheme_http: "has_scheme (''http://'' @ s)"
  by (simp add: has_scheme_def startswith_def)

lemma normalize_host_scheme: "has_scheme (normalize_host h)"
  by (simp add: normalize_host_def Let_def has_scheme_append has_scheme_http
      del: append.simps)

lemma endswith_api_append: "endswith (s @ ''/api/'') ''/api/''"
  by (simp add: endswith_def suffix_def)

lemma endswith_slash_api: "endswith s ''/'' \<Longrightarrow> endswith (s @ ''api/'') ''/api/''"
  by (auto simp: endswith_def suffix_def)

lemma normalize_host_ends: "endswith (normalize_host h) ''/api/''"
  by (simp add: normalize_host_def Let_def endswith_api_append endswith_slash_api
      del: append.simps)

lemma normalize_host_fixed:
  "has_scheme s \<Longrightarrow> endswith s ''/api/'' \<Longrightarrow> normalize_host s = s"
  by (simp add: normalize_host_def)

text \<open>
  Claim C10. Normalising a host twice gives the same base URL as normalising it once, and
  every normalised host starts with \<^verbatim>\<open>http://\<close> or \<^verbatim>\<open>https://\<close> and ends with
  \<^verbatim>\<open>/api/\<close>.
\<close>

theorem normalize_host_idempotent:
  "normalize_host (normalize_host h) = normalize_host h
   \<and> (startswith (normalize_host h) ''http://'' \<or> startswith (normalize_host h) ''https://'')
   \<and> endswith (normalize_host h) ''/api/''"
  using normalize_host_scheme [of h] normalize_host_ends [of h]
  by (simp add: normalize_host_fixed has_scheme_def)

end
